theory Spec2Isabelle
  imports Main
begin

section \<open>Strings\<close>

text \<open>
  A JavaScript string is modelled as a HOL \<^typ>\<open>string\<close>; a \<^typ>\<open>char\<close> stands for one
  code unit (the code units below 256).  On such strings the length that the validator
  library counts is the number of code units.
\<close>

definition isDigit :: "char \<Rightarrow> bool" where
  \<comment> \<open>the class \<open>\d\<close> of a JavaScript regular expression: exactly \<open>0\<close> to \<open>9\<close>\<close>
  "isDigit c = (c \<in> set ''0123456789'')"

definition isSpace :: "char \<Rightarrow> bool" where
  \<comment> \<open>the class \<open>\s\<close>: tab, line feed, vertical tab, form feed, carriage return,
      space and no-break space\<close>
  "isSpace c = (c \<in> set [CHR 0x09, CHR 0x0A, CHR 0x0B, CHR 0x0C, CHR 0x0D, CHR 0x20, CHR 0xA0])"

definition trim :: "string \<Rightarrow> string" where
  \<comment> \<open>\<open>String.prototype.trim\<close>, and the validator library's \<open>trim\<close> without a character set\<close>
  "trim s = rev (dropWhile isSpace (rev (dropWhile isSpace s)))"

definition slice :: "nat \<Rightarrow> nat \<Rightarrow> string \<Rightarrow> string" where
  \<comment> \<open>\<open>s.slice(a, b)\<close> for \<open>0 \<le> a \<le> b\<close>; indices beyond the end are clamped\<close>
  "slice a b s = take (b - a) (drop a s)"

definition sliceFrom :: "nat \<Rightarrow> string \<Rightarrow> string" where
  \<comment> \<open>\<open>s.slice(a)\<close>\<close>
  "sliceFrom a s = drop a s"

definition orElse :: "string \<Rightarrow> string \<Rightarrow> string" where
  \<comment> \<open>\<open>x || d\<close> on strings: the empty string is the only falsy one\<close>
  "orElse x d = (if x = [] then d else x)"

section \<open>The contact route (routes/personalData.js)\<close>

subsection \<open>formatPhone\<close>

definition formatPhone :: "string \<Rightarrow> string" where
  "formatPhone phone =
     (let digits = filter isDigit phone in
      if length digits = 10
      then slice 0 3 digits @ ''-'' @ slice 3 6 digits @ ''-'' @ sliceFrom 6 digits
      else ''None Provided'')"

subsection \<open>The collaborators of the route\<close>

text \<open>
  The route calls into four packages that are not part of the repository.  What they
  compute is taken as a parameter: the e-mail syntax check and the e-mail normaliser of the
  validation package, the sanitiser \<open>xss\<close>, and the mail transport, whose \<open>sendMail\<close>
  either succeeds (\<open>None\<close>) or rejects with an error carrying a message.  The process
  environment and the clock are parameters as well.
\<close>

record mail =
  mail_from :: string
  mail_to :: string
  mail_subject :: string
  mail_html :: string

record env =
  isEmail :: "string \<Rightarrow> bool"
  normalizeEmail :: "string \<Rightarrow> string"
  xss :: "string \<Rightarrow> string"
  sendMail :: "mail \<Rightarrow> string option"
  GMAIL_USER :: string
  EMAIL_TO :: string
  isoNow :: string  \<comment> \<open>\<open>new Date().toISOString()\<close>\<close>

type_synonym body = "string \<rightharpoonup> string"  \<comment> \<open>\<open>req.body\<close>: the keys present and their values\<close>

definition field :: "body \<Rightarrow> string \<Rightarrow> string" where
  \<comment> \<open>the value of a key as a string; an absent key reads as the empty string, both in
      the validation package (its \<open>toString\<close>) and in the sanitiser\<close>
  "field b k = (case b k of None \<Rightarrow> [] | Some v \<Rightarrow> v)"

subsection \<open>contactLimiter\<close>

record limiterOptions =
  windowMs :: nat
  limit_max :: nat
  limit_message :: string

definition contactLimiter :: limiterOptions where
  "contactLimiter =
     \<lparr>windowMs = 15 * 60 * 1000, limit_max = 5,
      limit_message = ''Too many submissions. Please try again later.''\<rparr>"

definition limited :: "limiterOptions \<Rightarrow> nat \<Rightarrow> bool" where
  \<comment> \<open>the limiter answers itself once the number of requests its store has counted for
      the client address in the current window, this one included, exceeds \<open>max\<close>\<close>
  "limited opts totalHits = (limit_max opts < totalHits)"

subsection \<open>validationRules\<close>

record fieldError =
  path :: string
  msg :: string
  val :: string

datatype chainItem =
    Sanitize "string \<Rightarrow> string"
  | Validate "string \<Rightarrow> bool" string  \<comment> \<open>a validator and the message of its error\<close>

definition notEmpty :: "string \<Rightarrow> bool" where
  "notEmpty s = (s \<noteq> [])"

definition isLengthMax :: "nat \<Rightarrow> string \<Rightarrow> bool" where
  \<comment> \<open>\<open>isLength({ max: n })\<close>\<close>
  "isLengthMax n s = (length s \<le> n)"

definition invalidValue :: string where
  \<comment> \<open>the message of a validator that has no \<open>withMessage\<close>\<close>
  "invalidValue = ''Invalid value''"

fun runChain :: "string \<Rightarrow> chainItem list \<Rightarrow> string \<Rightarrow> string \<times> fieldError list" where
  "runChain p [] v = (v, [])"
| "runChain p (Sanitize f # items) v = runChain p items (f v)"
| "runChain p (Validate ok m # items) v =
     (let (v', es) = runChain p items v
      in (v', (if ok v then [] else [\<lparr>path = p, msg = m, val = v\<rparr>]) @ es))"

definition validationRules :: "env \<Rightarrow> (string \<times> chainItem list) list" where
  "validationRules e =
     [(''name'', [Sanitize trim, Validate notEmpty ''Name is required.'',
                  Validate (isLengthMax 100) invalidValue]),
      (''email'', [Sanitize trim, Validate (isEmail e) ''A valid email is required.'',
                   Sanitize (normalizeEmail e)]),
      (''phone'', [Sanitize trim, Validate (isLengthMax 30) invalidValue]),
      (''message'', [Sanitize trim, Validate notEmpty ''Message is required.'',
                     Validate (isLengthMax 5000) invalidValue]),
      (''subject'', [Sanitize trim, Validate notEmpty ''Subject is required.'',
                     Validate (isLengthMax 200) invalidValue])]"

fun runRules :: "(string \<times> chainItem list) list \<Rightarrow> body \<Rightarrow> body \<times> fieldError list" where
  \<comment> \<open>each chain reads its field, writes the sanitised value back into the body and
      adds its errors to those of the request\<close>
  "runRules [] b = (b, [])"
| "runRules ((p, items) # rules) b =
     (let (v, es) = runChain p items (field b p);
          (b', es') = runRules rules (b(p \<mapsto> v))
      in (b', es @ es'))"

definition validationResult :: "env \<Rightarrow> body \<Rightarrow> fieldError list" where
  "validationResult e b = snd (runRules (validationRules e) b)"

definition validatedBody :: "env \<Rightarrow> body \<Rightarrow> body" where
  "validatedBody e b = fst (runRules (validationRules e) b)"

subsection \<open>The handler of \<open>POST /\<close>\<close>

datatype json =
    Errors bool "fieldError list"  \<comment> \<open>\<open>{ success, errors }\<close>\<close>
  | Message bool string            \<comment> \<open>\<open>{ success, message }\<close>\<close>
  | Error string                   \<comment> \<open>\<open>{ error }\<close>\<close>

record response =
  status :: nat
  json :: json

record outcome =
  res :: response
  sent :: "mail list"      \<comment> \<open>the calls of \<open>sendMail\<close>, in order\<close>
  logged :: "string list"  \<comment> \<open>the lines written by \<open>console.error\<close>\<close>

definition nl :: string where
  "nl = [CHR 0x0A]"

definition html :: "string \<Rightarrow> string \<Rightarrow> string \<Rightarrow> string \<Rightarrow> string \<Rightarrow> string" where
  "html name email formattedPhone sendDate message =
     nl @ ''        <p><strong>From:</strong> '' @ name @ ''</p>'' @
     nl @ ''        <p><strong>Email:</strong> '' @ email @ ''</p>'' @
     nl @ ''        <p><strong>Phone:</strong> '' @ formattedPhone @ ''</p>'' @
     nl @ ''        <p><strong>Date:</strong> '' @ sendDate @ ''</p>'' @
     nl @ ''        <hr>'' @
     nl @ ''        <p>'' @ message @ ''</p>'' @
     nl @ ''      ''"

definition formattedPhone :: "env \<Rightarrow> body \<Rightarrow> string" where
  "formattedPhone e b = formatPhone (xss e (orElse (field b ''phone'') []))"

definition composeMail :: "env \<Rightarrow> body \<Rightarrow> mail" where
  \<comment> \<open>the argument of \<open>sendMail\<close>, built from the body that validation left\<close>
  "composeMail e b =
     (let name = xss e (field b ''name'');
          email = xss e (field b ''email'');
          message = xss e (field b ''message'');
          subject = xss e (field b ''subject'');
          sendDate = slice 0 10 (isoNow e)
      in \<lparr>mail_from = GMAIL_USER e, mail_to = EMAIL_TO e, mail_subject = subject,
          mail_html = html name email (formattedPhone e b) sendDate message\<rparr>)"

definition handler :: "env \<Rightarrow> body \<Rightarrow> fieldError list \<Rightarrow> outcome" where
  "handler e b errors =
     (if errors \<noteq> []
      then \<lparr>res = \<lparr>status = 400, json = Errors False errors\<rparr>, sent = [], logged = []\<rparr>
      else
        let m = composeMail e b in
        case sendMail e m of
          None \<Rightarrow>
            \<lparr>res = \<lparr>status = 200, json = Message True ''Message sent successfully.''\<rparr>,
             sent = [m], logged = []\<rparr>
        | Some err \<Rightarrow>
            \<lparr>res = \<lparr>status = 500, json = Message False ''Failed to send message.''\<rparr>,
             sent = [m], logged = [''Email error: '' @ err]\<rparr>)"

definition router_post :: "env \<Rightarrow> nat \<Rightarrow> body \<Rightarrow> outcome" where
  \<comment> \<open>\<open>router.post("/", contactLimiter, validationRules, handler)\<close>; \<open>totalHits\<close> is the
      count the limiter's store reports for this request\<close>
  "router_post e totalHits b =
     (if limited contactLimiter totalHits
      then \<lparr>res = \<lparr>status = 429, json = Error (limit_message contactLimiter)\<rparr>,
            sent = [], logged = []\<rparr>
      else handler e (validatedBody e b) (validationResult e b))"

section \<open>The contact form of the page (scripts.js)\<close>

record location =
  protocol :: string
  hostname :: string

definition CONTACT_API_URL :: "location \<Rightarrow> string" where
  "CONTACT_API_URL loc = protocol loc @ ''//'' @ hostname loc @ ''/personaldata''"

subsection \<open>The e-mail pattern\<close>

definition plain :: "char \<Rightarrow> bool" where
  \<comment> \<open>the class \<open>[^\s@]\<close>\<close>
  "plain c = (\<not> isSpace c \<and> c \<noteq> CHR ''@'')"

definition emailRegex :: "string \<Rightarrow> bool" where
  \<comment> \<open>\<open>/^[^\s@]+@[^\s@]+\.[^\s@]+$/.test(s)\<close>: a non-empty run of plain characters, the
      only \<open>@\<close>, then plain characters with a dot that is neither the first nor the last\<close>
  "emailRegex s =
     (takeWhile plain s \<noteq> [] \<and>
      (case dropWhile plain s of
         [] \<Rightarrow> False
       | c # d \<Rightarrow> c = CHR ''@'' \<and> list_all plain d \<and> CHR ''.'' \<in> set (butlast (tl d))))"

subsection \<open>The request and its answer\<close>

record data =  \<comment> \<open>the parsed answer, as far as the page reads it\<close>
  success :: bool            \<comment> \<open>whether \<open>data.success\<close> is truthy\<close>
  message :: "string option"  \<comment> \<open>\<open>data.message\<close>, when the key is present\<close>

datatype parsed =
    Unreadable string  \<comment> \<open>\<open>response.json()\<close> rejects, or the answer is \<open>null\<close>: an error with this message\<close>
  | Data data

datatype fetched =
    Rejected string         \<comment> \<open>\<open>fetch\<close> rejects with an error of this message\<close>
  | Responded bool parsed   \<comment> \<open>a response, with \<open>response.ok\<close> and what \<open>response.json()\<close> gives\<close>

definition catchMessage :: "string \<Rightarrow> string" where
  \<comment> \<open>the text that the \<open>catch\<close> block shows for an error with message \<open>m\<close>\<close>
  "catchMessage m =
     (if m = ''Failed to fetch'' then ''Network error. Please check your connection.''
      else orElse m ''Failed to send message.'')"

definition attempt :: "fetched \<Rightarrow> string + data" where
  \<comment> \<open>the \<open>try\<close> block after \<open>fetch\<close> was called: the text shown, or the data returned\<close>
  "attempt f =
     (case f of
        Rejected m \<Rightarrow> Inl (catchMessage m)
      | Responded ok (Unreadable m) \<Rightarrow> Inl (catchMessage m)
      | Responded ok (Data d) \<Rightarrow>
          if \<not> ok \<or> \<not> success d
          then Inl (catchMessage
                 (orElse (case message d of None \<Rightarrow> [] | Some m \<Rightarrow> m) ''Failed to send message.''))
          else Inr d)"

subsection \<open>openContactForm\<close>

type_synonym payload = "(string \<times> string) list"  \<comment> \<open>the keys and values of the JSON text, in order\<close>

datatype effect =
    Fire string string string      \<comment> \<open>\<open>Swal.fire\<close> of a notice: icon, title, text\<close>
  | FireForm                       \<comment> \<open>\<open>Swal.fire\<close> of the form\<close>
  | ShowValidationMessage string
  | Fetch string payload           \<comment> \<open>\<open>fetch\<close> with method POST: the address and the body\<close>

record form =  \<comment> \<open>the values of the four inputs when Submit is pressed\<close>
  swal_name :: string
  swal_email :: string
  swal_subject :: string
  swal_message :: string

datatype userAction =
    Cancel
  | Confirm form fetched  \<comment> \<open>Submit is pressed; what \<open>fetch\<close> will do if it is called\<close>

datatype dialogResult = Confirmed data | Dismissed

definition stringify :: "string \<Rightarrow> string \<Rightarrow> string \<Rightarrow> string \<Rightarrow> payload" where
  \<comment> \<open>\<open>JSON.stringify({ name, email, subject, message })\<close>\<close>
  "stringify n e s m = [(''name'', n), (''email'', e), (''subject'', s), (''message'', m)]"

definition preConfirm :: "location \<Rightarrow> form \<Rightarrow> fetched \<Rightarrow> effect list \<times> data option" where
  \<comment> \<open>\<open>None\<close> is the \<open>false\<close> that keeps the dialog open\<close>
  "preConfirm loc f r =
     (let n = trim (swal_name f); e = trim (swal_email f);
          s = trim (swal_subject f); m = trim (swal_message f)
      in if n = [] \<or> e = [] \<or> s = [] \<or> m = []
         then ([ShowValidationMessage ''All fields are required.''], None)
         else if \<not> emailRegex e
         then ([ShowValidationMessage ''Please enter a valid email address.''], None)
         else
           case attempt r of
             Inl shown \<Rightarrow>
               ([Fetch (CONTACT_API_URL loc) (stringify n e s m), ShowValidationMessage shown], None)
           | Inr d \<Rightarrow> ([Fetch (CONTACT_API_URL loc) (stringify n e s m)], Some d))"

fun fireForm :: "location \<Rightarrow> userAction list \<Rightarrow> effect list \<times> dialogResult option" where
  \<comment> \<open>the dialog, driven by what the user does; \<open>None\<close>: it is still open\<close>
  "fireForm loc [] = ([], None)"
| "fireForm loc (Cancel # acts) = ([], Some Dismissed)"
| "fireForm loc (Confirm f r # acts) =
     (case preConfirm loc f r of
        (es, Some d) \<Rightarrow> (es, Some (Confirmed d))
      | (es, None) \<Rightarrow> (let (es', x) = fireForm loc acts in (es @ es', x)))"

type_synonym storage = "string \<rightharpoonup> string"  \<comment> \<open>\<open>sessionStorage\<close>\<close>

definition truthy :: "string option \<Rightarrow> bool" where
  \<comment> \<open>of what \<open>getItem\<close> returns: \<open>null\<close> and the empty string are falsy\<close>
  "truthy x = (case x of None \<Rightarrow> False | Some v \<Rightarrow> v \<noteq> [])"

definition openContactForm :: "location \<Rightarrow> userAction list \<Rightarrow> storage \<Rightarrow> storage \<times> effect list" where
  "openContactForm loc acts st =
     (if truthy (st ''contactSent'')
      then (st, [Fire ''info'' ''Already Sent''
                   ''You have already submitted a message this session.''])
      else
        case fireForm loc acts of
          (es, Some (Confirmed d)) \<Rightarrow>
            (st(''contactSent'' \<mapsto> ''true''),
             FireForm # es @
             [Fire ''success'' ''Message Sent!''
                ''Thank you for reaching out. I will get back to you soon.''])
        | (es, _) \<Rightarrow> (st, FireForm # es))"

section \<open>Sample collaborators\<close>

text \<open>Concrete collaborators, on which the model can be run.\<close>

definition escapeTags :: "string \<Rightarrow> string" where
  "escapeTags s =
     concat (map (\<lambda>c. if c = CHR ''<'' then ''&lt;'' else if c = CHR ''>'' then ''&gt;'' else [c]) s)"

definition sampleEnv :: "(mail \<Rightarrow> string option) \<Rightarrow> env" where
  "sampleEnv send =
     \<lparr>isEmail = emailRegex, normalizeEmail = (\<lambda>s. s), xss = escapeTags, sendMail = send,
      GMAIL_USER = ''owner@example.com'', EMAIL_TO = ''inbox@example.com'',
      isoNow = ''2026-04-11T09:30:00.000Z''\<rparr>"

definition janeDoe :: body where
  "janeDoe =
     [''name'' \<mapsto> ''Jane Doe'', ''email'' \<mapsto> ''jane@example.com'', ''phone'' \<mapsto> ''4045551234'',
      ''subject'' \<mapsto> ''Hello'', ''message'' \<mapsto> ''Hi there'']"

definition janeForm :: form where
  "janeForm =
     \<lparr>swal_name = '' Jane Doe'', swal_email = ''jane@example.com '',
      swal_subject = ''Hello'', swal_message = ''Hi there''\<rparr>"

definition site :: location where
  "site = \<lparr>protocol = ''https:'', hostname = ''gregroques.com''\<rparr>"

definition sentOk :: fetched where
  "sentOk = Responded True (Data \<lparr>success = True, message = Some ''Message sent successfully.''\<rparr>)"

section \<open>Properties of the route\<close>

subsection \<open>Validation in closed form\<close>

lemma validationResult_eq:
  "validationResult e b =
     (let n = trim (field b ''name''); m = trim (field b ''email''); p = trim (field b ''phone'');
          t = trim (field b ''message''); s = trim (field b ''subject'')
      in (if notEmpty n then []
          else [\<lparr>path = ''name'', msg = ''Name is required.'', val = n\<rparr>]) @
         (if isLengthMax 100 n then [] else [\<lparr>path = ''name'', msg = invalidValue, val = n\<rparr>]) @
         (if isEmail e m then []
          else [\<lparr>path = ''email'', msg = ''A valid email is required.'', val = m\<rparr>]) @
         (if isLengthMax 30 p then [] else [\<lparr>path = ''phone'', msg = invalidValue, val = p\<rparr>]) @
         (if notEmpty t then []
          else [\<lparr>path = ''message'', msg = ''Message is required.'', val = t\<rparr>]) @
         (if isLengthMax 5000 t then []
          else [\<lparr>path = ''message'', msg = invalidValue, val = t\<rparr>]) @
         (if notEmpty s then []
          else [\<lparr>path = ''subject'', msg = ''Subject is required.'', val = s\<rparr>]) @
         (if isLengthMax 200 s then []
          else [\<lparr>path = ''subject'', msg = invalidValue, val = s\<rparr>]))"
  by (simp add: validationResult_def validationRules_def field_def Let_def)

lemma in_set_unless: "x \<in> set (if c then [] else [y]) \<longleftrightarrow> \<not> c \<and> x = y"
  by simp

lemma validationResult_mem:
  "x \<in> set (validationResult e b) \<longleftrightarrow>
     (\<not> notEmpty (trim (field b ''name'')) \<and>
        x = \<lparr>path = ''name'', msg = ''Name is required.'', val = trim (field b ''name'')\<rparr>)
   \<or> (\<not> isLengthMax 100 (trim (field b ''name'')) \<and>
        x = \<lparr>path = ''name'', msg = invalidValue, val = trim (field b ''name'')\<rparr>)
   \<or> (\<not> isEmail e (trim (field b ''email'')) \<and>
        x = \<lparr>path = ''email'', msg = ''A valid email is required.'',
              val = trim (field b ''email'')\<rparr>)
   \<or> (\<not> isLengthMax 30 (trim (field b ''phone'')) \<and>
        x = \<lparr>path = ''phone'', msg = invalidValue, val = trim (field b ''phone'')\<rparr>)
   \<or> (\<not> notEmpty (trim (field b ''message'')) \<and>
        x = \<lparr>path = ''message'', msg = ''Message is required.'',
              val = trim (field b ''message'')\<rparr>)
   \<or> (\<not> isLengthMax 5000 (trim (field b ''message'')) \<and>
        x = \<lparr>path = ''message'', msg = invalidValue, val = trim (field b ''message'')\<rparr>)
   \<or> (\<not> notEmpty (trim (field b ''subject'')) \<and>
        x = \<lparr>path = ''subject'', msg = ''Subject is required.'',
              val = trim (field b ''subject'')\<rparr>)
   \<or> (\<not> isLengthMax 200 (trim (field b ''subject'')) \<and>
        x = \<lparr>path = ''subject'', msg = invalidValue, val = trim (field b ''subject'')\<rparr>)"
  unfolding validationResult_eq Let_def set_append Un_iff in_set_unless by (rule refl)

lemma validatedBody_eq:
  "validatedBody e b =
     b(''name'' \<mapsto> trim (field b ''name''),
       ''email'' \<mapsto> normalizeEmail e (trim (field b ''email'')),
       ''phone'' \<mapsto> trim (field b ''phone''),
       ''message'' \<mapsto> trim (field b ''message''),
       ''subject'' \<mapsto> trim (field b ''subject''))"
  by (simp add: validatedBody_def validationRules_def field_def Let_def)

lemma validatedBody_phone:
  "field (validatedBody e b) ''phone'' = trim (field b ''phone'')"
  by (simp add: validatedBody_eq field_def)

subsection \<open>The gate and the answer to a request with errors\<close>

lemma limited_contactLimiter: "limited contactLimiter n \<longleftrightarrow> 5 < n"
  by (simp add: limited_def contactLimiter_def)

lemma rate_limited_429:
  assumes "limited contactLimiter totalHits"
  shows "router_post e totalHits b =
           \<lparr>res = \<lparr>status = 429, json = Error ''Too many submissions. Please try again later.''\<rparr>,
            sent = [], logged = []\<rparr>"
  using assms by (simp add: router_post_def contactLimiter_def)

lemma rejected_400:
  assumes "\<not> limited contactLimiter totalHits" and "x \<in> set (validationResult e b)"
  shows "router_post e totalHits b =
           \<lparr>res = \<lparr>status = 400, json = Errors False (validationResult e b)\<rparr>,
            sent = [], logged = []\<rparr>"
proof -
  from assms(2) have "validationResult e b \<noteq> []" by auto
  with assms(1) show ?thesis by (simp add: router_post_def handler_def)
qed

lemma no_dispatch_on_errors:
  assumes "x \<in> set (validationResult e b)"
  shows "sent (router_post e totalHits b) = []"
proof (cases "limited contactLimiter totalHits")
  case True
  then show ?thesis by (simp add: router_post_def)
next
  case False
  from rejected_400 [OF False assms] show ?thesis by simp
qed

lemma error_of_missing:
  assumes "k \<in> {''name'', ''email'', ''subject'', ''message''}"
    and "trim (field b k) = []"
    and "k = ''email'' \<longrightarrow> \<not> isEmail e []"
  shows "\<exists>x. x \<in> set (validationResult e b) \<and> path x = k"
proof -
  from assms(1) consider "k = ''name''" | "k = ''email''" | "k = ''subject''" | "k = ''message''"
    by auto
  then show ?thesis
  proof cases
    case 1
    let ?x = "\<lparr>path = ''name'', msg = ''Name is required.'', val = trim (field b ''name'')\<rparr>"
    from 1 assms(2) have "?x \<in> set (validationResult e b)"
      unfolding validationResult_mem by (simp add: notEmpty_def)
    moreover have "path ?x = k" using 1 by simp
    ultimately show ?thesis by blast
  next
    case 2
    let ?x = "\<lparr>path = ''email'', msg = ''A valid email is required.'',
               val = trim (field b ''email'')\<rparr>"
    from 2 assms(2,3) have "?x \<in> set (validationResult e b)"
      unfolding validationResult_mem by simp
    moreover have "path ?x = k" using 2 by simp
    ultimately show ?thesis by blast
  next
    case 3
    let ?x = "\<lparr>path = ''subject'', msg = ''Subject is required.'',
               val = trim (field b ''subject'')\<rparr>"
    from 3 assms(2) have "?x \<in> set (validationResult e b)"
      unfolding validationResult_mem by (simp add: notEmpty_def)
    moreover have "path ?x = k" using 3 by simp
    ultimately show ?thesis by blast
  next
    case 4
    let ?x = "\<lparr>path = ''message'', msg = ''Message is required.'',
               val = trim (field b ''message'')\<rparr>"
    from 4 assms(2) have "?x \<in> set (validationResult e b)"
      unfolding validationResult_mem by (simp add: notEmpty_def)
    moreover have "path ?x = k" using 4 by simp
    ultimately show ?thesis by blast
  qed
qed

subsection \<open>The sample request\<close>

lemma janeDoe_valid: "validationResult (sampleEnv send) janeDoe = []"
  by (simp add: validationResult_eq Let_def janeDoe_def field_def trim_def isSpace_def
      notEmpty_def isLengthMax_def sampleEnv_def emailRegex_def plain_def)

lemma janeDoe_phone:
  "formattedPhone (sampleEnv send) (validatedBody (sampleEnv send) janeDoe) = ''404-555-1234''"
proof -
  have "trim (field janeDoe ''phone'') = ''4045551234''"
    by (simp add: field_def janeDoe_def trim_def isSpace_def)
  then have "field (validatedBody (sampleEnv send) janeDoe) ''phone'' = ''4045551234''"
    by (simp only: validatedBody_phone)
  then show ?thesis
    by (simp add: formattedPhone_def orElse_def sampleEnv_def escapeTags_def formatPhone_def
        isDigit_def slice_def sliceFrom_def)
qed

lemma bad_email_errors:
  "validationResult (sampleEnv send) (janeDoe(''email'' \<mapsto> ''jane.example.com'')) =
     [\<lparr>path = ''email'', msg = ''A valid email is required.'', val = ''jane.example.com''\<rparr>]"
  by (simp add: validationResult_eq Let_def janeDoe_def field_def trim_def isSpace_def
      notEmpty_def isLengthMax_def sampleEnv_def emailRegex_def plain_def)

lemma long_phone_errors:
  "validationResult (sampleEnv send)
     (janeDoe(''phone'' \<mapsto> ''  +1 (404) 555-1234 ext. 0000000001  '')) =
     [\<lparr>path = ''phone'', msg = ''Invalid value'', val = ''+1 (404) 555-1234 ext. 0000000001''\<rparr>]"
  by (simp add: validationResult_eq Let_def janeDoe_def field_def trim_def isSpace_def
      notEmpty_def isLengthMax_def sampleEnv_def emailRegex_def plain_def invalidValue_def)

lemma blank_subject_errors:
  "validationResult (sampleEnv send) (janeDoe(''subject'' \<mapsto> ''   '')) =
     [\<lparr>path = ''subject'', msg = ''Subject is required.'', val = []\<rparr>]"
  by (simp add: validationResult_eq Let_def janeDoe_def field_def trim_def isSpace_def
      notEmpty_def isLengthMax_def sampleEnv_def emailRegex_def plain_def)

subsection \<open>Required fields\<close>

text \<open>
  C1: a submission that the rate limiter admits and in which one of the required fields
  \<open>name\<close>, \<open>email\<close>, \<open>subject\<close>, \<open>message\<close> is absent, or empty once trimmed, is answered
  with status 400 and the list of validation errors, which holds an entry whose path is that
  field; \<open>sendMail\<close> is not called.  For \<open>email\<close> the entry comes from the syntax check of
  the validation package, which is taken to reject the empty string.
\<close>

theorem missing_field_rejected:
  assumes "\<not> limited contactLimiter totalHits"
    and "k \<in> {''name'', ''email'', ''subject'', ''message''}"
    and "trim (field b k) = []"
    and "k = ''email'' \<longrightarrow> \<not> isEmail e []"
  shows "router_post e totalHits b =
           \<lparr>res = \<lparr>status = 400, json = Errors False (validationResult e b)\<rparr>,
            sent = [], logged = []\<rparr>
         \<and> (\<exists>x. x \<in> set (validationResult e b) \<and> path x = k)"
proof -
  from error_of_missing [OF assms(2-4)]
  obtain x where x: "x \<in> set (validationResult e b)" "path x = k" by blast
  from rejected_400 [OF assms(1) x(1)] x show ?thesis by blast
qed

theorem missing_field_rejected_witness:
  "(router_post (sampleEnv (\<lambda>m. None)) 1 (janeDoe(''subject'' \<mapsto> ''   '')) =
      \<lparr>res = \<lparr>status = 400, json = Errors False
         (validationResult (sampleEnv (\<lambda>m. None)) (janeDoe(''subject'' \<mapsto> ''   '')))\<rparr>,
       sent = [], logged = []\<rparr>
     \<and> (\<exists>x. x \<in> set (validationResult (sampleEnv (\<lambda>m. None)) (janeDoe(''subject'' \<mapsto> ''   '')))
           \<and> path x = ''subject''))
   \<and> (router_post (sampleEnv (\<lambda>m. None)) 1 (janeDoe |` (- {''email''})) =
      \<lparr>res = \<lparr>status = 400, json = Errors False
         (validationResult (sampleEnv (\<lambda>m. None)) (janeDoe |` (- {''email''})))\<rparr>,
       sent = [], logged = []\<rparr>
     \<and> (\<exists>x. x \<in> set (validationResult (sampleEnv (\<lambda>m. None)) (janeDoe |` (- {''email''})))
           \<and> path x = ''email''))"
proof -
  have l: "\<not> limited contactLimiter 1" by (simp add: limited_def contactLimiter_def)
  have m: "''email'' = ''email'' \<longrightarrow> \<not> isEmail (sampleEnv (\<lambda>m. None)) []"
    by (simp add: sampleEnv_def emailRegex_def)
  have n: "''subject'' = ''email'' \<longrightarrow> \<not> isEmail (sampleEnv (\<lambda>m. None)) []"
    by simp
  have ks: "''subject'' \<in> {''name'', ''email'', ''subject'', ''message''}" by simp
  have ke: "''email'' \<in> {''name'', ''email'', ''subject'', ''message''}" by simp
  have s: "trim (field (janeDoe(''subject'' \<mapsto> ''   '')) ''subject'') = []"
    by (simp add: field_def trim_def isSpace_def)
  have t: "trim (field (janeDoe |` (- {''email''})) ''email'') = []"
    by (simp add: field_def trim_def)
  show ?thesis
    using missing_field_rejected [OF l ks s n] missing_field_rejected [OF l ke t m]
    by (rule conjI)
qed

subsection \<open>The outcome of the dispatch\<close>

text \<open>
  C3: for a request that the rate limiter admits and that passes validation, the answer is
  exactly status 200 with \<open>{success: true, message: "Message sent successfully."}\<close> when
  \<open>sendMail\<close> succeeds, and exactly status 500 with
  \<open>{success: false, message: "Failed to send message."}\<close> when it fails, whatever the message
  of the transport's error is: that message is no part of the answer.
\<close>

theorem dispatch_outcome:
  assumes "\<not> limited contactLimiter totalHits"
    and "validationResult e b = []"
  shows "(sendMail e (composeMail e (validatedBody e b)) = None \<longrightarrow>
            res (router_post e totalHits b) =
              \<lparr>status = 200, json = Message True ''Message sent successfully.''\<rparr>)
       \<and> (\<forall>err. sendMail e (composeMail e (validatedBody e b)) = Some err \<longrightarrow>
            res (router_post e totalHits b) =
              \<lparr>status = 500, json = Message False ''Failed to send message.''\<rparr>)"
  using assms by (simp add: router_post_def handler_def Let_def)

theorem dispatch_outcome_witness:
  "res (router_post (sampleEnv (\<lambda>m. None)) 1 janeDoe) =
      \<lparr>status = 200, json = Message True ''Message sent successfully.''\<rparr>
   \<and> res (router_post (sampleEnv (\<lambda>m. Some ''Invalid login: 535-5.7.8'')) 5 janeDoe) =
      \<lparr>status = 500, json = Message False ''Failed to send message.''\<rparr>"
proof -
  have l: "\<not> limited contactLimiter 1" "\<not> limited contactLimiter 5"
    by (simp_all add: limited_def contactLimiter_def)
  have a: "sendMail (sampleEnv (\<lambda>m. None)) x = None" for x
    by (simp add: sampleEnv_def)
  have b: "sendMail (sampleEnv (\<lambda>m. Some ''Invalid login: 535-5.7.8'')) x
             = Some ''Invalid login: 535-5.7.8''" for x
    by (simp add: sampleEnv_def)
  have r1: "res (router_post (sampleEnv (\<lambda>m. None)) 1 janeDoe) =
      \<lparr>status = 200, json = Message True ''Message sent successfully.''\<rparr>"
    by (rule mp [OF conjunct1 [OF dispatch_outcome [OF l(1) janeDoe_valid]] a])
  have r2: "res (router_post (sampleEnv (\<lambda>m. Some ''Invalid login: 535-5.7.8'')) 5 janeDoe) =
      \<lparr>status = 500, json = Message False ''Failed to send message.''\<rparr>"
    by (rule mp [OF spec [OF conjunct2 [OF dispatch_outcome [OF l(2) janeDoe_valid]]] b])
  show ?thesis using r1 r2 by (rule conjI)
qed

subsection \<open>formatPhone\<close>

lemma formatPhone_ten:
  assumes "filter isDigit s = [d0, d1, d2, d3, d4, d5, d6, d7, d8, d9]"
  shows "formatPhone s = [d0, d1, d2, CHR ''-'', d3, d4, d5, CHR ''-'', d6, d7, d8, d9]"
  using assms by (simp add: formatPhone_def slice_def sliceFrom_def)

lemma formatPhone_other:
  assumes "length (filter isDigit s) \<noteq> 10"
  shows "formatPhone s = ''None Provided''"
  using assms by (simp add: formatPhone_def)

text \<open>
  C4: when the digits of the input, the other characters removed, are exactly ten,
  \<open>formatPhone\<close> returns them as three digits, a hyphen, three digits, a hyphen and four
  digits; for every other input it returns \<open>None Provided\<close>.
\<close>

theorem formatPhone_spec:
  "(filter isDigit s = [d0, d1, d2, d3, d4, d5, d6, d7, d8, d9] \<longrightarrow>
      formatPhone s = [d0, d1, d2, CHR ''-'', d3, d4, d5, CHR ''-'', d6, d7, d8, d9])
   \<and> (length (filter isDigit s) \<noteq> 10 \<longrightarrow> formatPhone s = ''None Provided'')"
proof (intro conjI impI)
  assume "filter isDigit s = [d0, d1, d2, d3, d4, d5, d6, d7, d8, d9]"
  then show "formatPhone s = [d0, d1, d2, CHR ''-'', d3, d4, d5, CHR ''-'', d6, d7, d8, d9]"
    by (rule formatPhone_ten)
next
  assume "length (filter isDigit s) \<noteq> 10"
  then show "formatPhone s = ''None Provided''" by (rule formatPhone_other)
qed

theorem formatPhone_spec_witness:
  "formatPhone ''(404) 555-1234'' = ''404-555-1234''
   \<and> formatPhone [] = ''None Provided''
   \<and> formatPhone ''404555123'' = ''None Provided''
   \<and> formatPhone ''14045551234'' = ''None Provided''
   \<and> formatPhone ''call me'' = ''None Provided''"
proof -
  have a: "filter isDigit ''(404) 555-1234'' = ''4045551234''" by (simp add: isDigit_def)
  have b: "length (filter isDigit []) \<noteq> 10" by simp
  have c: "length (filter isDigit ''404555123'') \<noteq> 10" by (simp add: isDigit_def)
  have d: "length (filter isDigit ''14045551234'') \<noteq> 10" by (simp add: isDigit_def)
  have e: "length (filter isDigit ''call me'') \<noteq> 10" by (simp add: isDigit_def)
  have r1: "formatPhone ''(404) 555-1234'' = ''404-555-1234''"
    by (rule mp [OF conjunct1 [OF formatPhone_spec] a])
  have r2: "formatPhone [] = ''None Provided''"
    by (rule mp [OF conjunct2 [OF formatPhone_spec] b])
  have r3: "formatPhone ''404555123'' = ''None Provided''"
    by (rule mp [OF conjunct2 [OF formatPhone_spec] c])
  have r4: "formatPhone ''14045551234'' = ''None Provided''"
    by (rule mp [OF conjunct2 [OF formatPhone_spec] d])
  have r5: "formatPhone ''call me'' = ''None Provided''"
    by (rule mp [OF conjunct2 [OF formatPhone_spec] e])
  from r1 r2 r3 r4 r5 show ?thesis by (intro conjI)
qed

subsection \<open>The e-mail check\<close>

text \<open>
  C6: a submission that the rate limiter admits and whose \<open>email\<close>, once trimmed, fails the
  syntax check of the validation package is answered with status 400; the errors hold the
  entry of that check, and \<open>sendMail\<close> is not called.
\<close>

theorem invalid_email_rejected:
  assumes "\<not> limited contactLimiter totalHits"
    and "\<not> isEmail e (trim (field b ''email''))"
  shows "router_post e totalHits b =
           \<lparr>res = \<lparr>status = 400, json = Errors False (validationResult e b)\<rparr>,
            sent = [], logged = []\<rparr>
         \<and> \<lparr>path = ''email'', msg = ''A valid email is required.'',
              val = trim (field b ''email'')\<rparr> \<in> set (validationResult e b)"
proof -
  have x: "\<lparr>path = ''email'', msg = ''A valid email is required.'',
              val = trim (field b ''email'')\<rparr> \<in> set (validationResult e b)"
    unfolding validationResult_mem using assms(2) by simp
  from rejected_400 [OF assms(1) x] x show ?thesis by (rule conjI)
qed

theorem invalid_email_rejected_witness:
  "router_post (sampleEnv (\<lambda>m. None)) 1 (janeDoe(''email'' \<mapsto> ''jane.example.com'')) =
     \<lparr>res = \<lparr>status = 400, json = Errors False
         (validationResult (sampleEnv (\<lambda>m. None)) (janeDoe(''email'' \<mapsto> ''jane.example.com'')))\<rparr>,
      sent = [], logged = []\<rparr>
   \<and> \<lparr>path = ''email'', msg = ''A valid email is required.'',
        val = trim (field (janeDoe(''email'' \<mapsto> ''jane.example.com'')) ''email'')\<rparr>
      \<in> set (validationResult (sampleEnv (\<lambda>m. None)) (janeDoe(''email'' \<mapsto> ''jane.example.com'')))"
proof -
  have l: "\<not> limited contactLimiter 1" by (simp add: limited_def contactLimiter_def)
  have t: "trim (field (janeDoe(''email'' \<mapsto> ''jane.example.com'')) ''email'') = ''jane.example.com''"
    by (simp add: field_def trim_def isSpace_def)
  have "\<not> emailRegex ''jane.example.com''"
    by (simp add: emailRegex_def plain_def isSpace_def)
  then have m: "\<not> isEmail (sampleEnv (\<lambda>m. None))
             (trim (field (janeDoe(''email'' \<mapsto> ''jane.example.com'')) ''email''))"
    unfolding t by (simp add: sampleEnv_def)
  show ?thesis by (rule invalid_email_rejected [OF l m])
qed

subsection \<open>The length of the phone\<close>

text \<open>
  C10: a submission that the rate limiter admits and whose \<open>phone\<close>, once trimmed, is
  longer than 30 characters is answered with status 400, the errors holding an entry for
  \<open>phone\<close>, and \<open>sendMail\<close> is not called, whatever the other fields are.
\<close>

theorem long_phone_rejected:
  assumes "\<not> limited contactLimiter totalHits"
    and "30 < length (trim (field b ''phone''))"
  shows "router_post e totalHits b =
           \<lparr>res = \<lparr>status = 400, json = Errors False (validationResult e b)\<rparr>,
            sent = [], logged = []\<rparr>
         \<and> \<lparr>path = ''phone'', msg = invalidValue, val = trim (field b ''phone'')\<rparr>
              \<in> set (validationResult e b)"
proof -
  have x: "\<lparr>path = ''phone'', msg = invalidValue, val = trim (field b ''phone'')\<rparr>
              \<in> set (validationResult e b)"
    unfolding validationResult_mem using assms(2) by (simp add: isLengthMax_def)
  from rejected_400 [OF assms(1) x] x show ?thesis by (rule conjI)
qed

theorem long_phone_rejected_witness:
  "router_post (sampleEnv (\<lambda>m. None)) 1
       (janeDoe(''phone'' \<mapsto> ''  +1 (404) 555-1234 ext. 0000000001  '')) =
     \<lparr>res = \<lparr>status = 400, json = Errors False
         (validationResult (sampleEnv (\<lambda>m. None))
            (janeDoe(''phone'' \<mapsto> ''  +1 (404) 555-1234 ext. 0000000001  '')))\<rparr>,
      sent = [], logged = []\<rparr>
   \<and> \<lparr>path = ''phone'', msg = invalidValue,
        val = trim (field (janeDoe(''phone'' \<mapsto> ''  +1 (404) 555-1234 ext. 0000000001  ''))
                ''phone'')\<rparr>
      \<in> set (validationResult (sampleEnv (\<lambda>m. None))
            (janeDoe(''phone'' \<mapsto> ''  +1 (404) 555-1234 ext. 0000000001  '')))"
proof -
  have l: "\<not> limited contactLimiter 1" by (simp add: limited_def contactLimiter_def)
  have t: "trim (field (janeDoe(''phone'' \<mapsto> ''  +1 (404) 555-1234 ext. 0000000001  '')) ''phone'')
             = ''+1 (404) 555-1234 ext. 0000000001''"
    by (simp add: field_def trim_def isSpace_def)
  have m: "30 < length (trim (field
             (janeDoe(''phone'' \<mapsto> ''  +1 (404) 555-1234 ext. 0000000001  '')) ''phone''))"
    unfolding t by simp
  show ?thesis by (rule long_phone_rejected [OF l m])
qed

section \<open>Properties of the contact form\<close>

subsection \<open>What the e-mail pattern accepts\<close>

lemma plain_dot: "plain (CHR ''.'')"
  by (simp add: plain_def isSpace_def)

lemma plain_at: "\<not> plain (CHR ''@'')"
  by (simp add: plain_def)

lemma emailRegex_iff:
  "emailRegex s \<longleftrightarrow>
     (\<exists>a b c. s = a @ ''@'' @ b @ ''.'' @ c \<and> a \<noteq> [] \<and> b \<noteq> [] \<and> c \<noteq> []
        \<and> list_all plain a \<and> list_all plain b \<and> list_all plain c)"
proof
  assume r: "emailRegex s"
  then obtain d where a: "takeWhile plain s \<noteq> []" and d: "dropWhile plain s = CHR ''@'' # d"
    and pd: "list_all plain d" and dot: "CHR ''.'' \<in> set (butlast (tl d))"
    by (auto simp add: emailRegex_def split: list.splits)
  from dot obtain x t where xt: "d = x # t" by (cases d) auto
  with dot have "CHR ''.'' \<in> set (butlast t)" by simp
  then obtain u w where uw: "butlast t = u @ CHR ''.'' # w" by (auto dest: split_list)
  then have "t \<noteq> []" by auto
  then obtain l where t: "t = (u @ CHR ''.'' # w) @ [l]"
    using uw by (metis append_butlast_last_id)
  have s: "s = takeWhile plain s @ CHR ''@'' # d" using d by (metis takeWhile_dropWhile_id)
  have "s = takeWhile plain s @ ''@'' @ (x # u) @ ''.'' @ (w @ [l])"
    using s xt t by simp
  moreover have "list_all plain (takeWhile plain s)"
    by (simp add: list_all_iff) (meson set_takeWhileD)
  moreover have "list_all plain (x # u)" "list_all plain (w @ [l])"
    using pd xt t by (auto simp add: list_all_iff)
  ultimately show "\<exists>a b c. s = a @ ''@'' @ b @ ''.'' @ c \<and> a \<noteq> [] \<and> b \<noteq> [] \<and> c \<noteq> []
        \<and> list_all plain a \<and> list_all plain b \<and> list_all plain c"
    using a by blast
next
  assume "\<exists>a b c. s = a @ ''@'' @ b @ ''.'' @ c \<and> a \<noteq> [] \<and> b \<noteq> [] \<and> c \<noteq> []
        \<and> list_all plain a \<and> list_all plain b \<and> list_all plain c"
  then obtain a b c where s: "s = a @ CHR ''@'' # b @ CHR ''.'' # c"
    and ne: "a \<noteq> []" "b \<noteq> []" "c \<noteq> []"
    and p: "list_all plain a" "list_all plain b" "list_all plain c"
    by auto
  have tw: "takeWhile plain s = a"
    using s p(1) plain_at by (simp add: list_all_iff takeWhile_append2)
  have dw: "dropWhile plain s = CHR ''@'' # b @ CHR ''.'' # c"
    using s p(1) plain_at by (simp add: list_all_iff dropWhile_append2)
  from ne obtain x b' where b: "b = x # b'" by (cases b) auto
  have "butlast (b' @ CHR ''.'' # c) = b' @ CHR ''.'' # butlast c"
    using ne(3) by (simp add: butlast_append)
  then have "CHR ''.'' \<in> set (butlast (tl (b @ CHR ''.'' # c)))" by (simp add: b)
  moreover have "list_all plain (b @ CHR ''.'' # c)" using p plain_dot by simp
  ultimately show "emailRegex s" using tw dw ne(1) by (simp add: emailRegex_def)
qed

subsection \<open>A run of the form\<close>

lemma janeForm_run:
  "openContactForm site [Confirm janeForm sentOk] Map.empty =
     ([''contactSent'' \<mapsto> ''true''],
      [FireForm,
       Fetch ''https://gregroques.com/personaldata''
         [(''name'', ''Jane Doe''), (''email'', ''jane@example.com''), (''subject'', ''Hello''),
          (''message'', ''Hi there'')],
       Fire ''success'' ''Message Sent!''
         ''Thank you for reaching out. I will get back to you soon.''])"
  by (simp add: openContactForm_def truthy_def preConfirm_def janeForm_def site_def sentOk_def
      trim_def isSpace_def emailRegex_def plain_def attempt_def CONTACT_API_URL_def stringify_def)

subsection \<open>One message per session\<close>

text \<open>
  C7: when \<open>contactSent\<close> is set in the session storage, as it is after a confirmed
  success, \<open>openContactForm\<close> shows the notice \<open>Already Sent\<close> and nothing else: the
  form is not opened and nothing is fetched, and the storage is as it was.
\<close>

theorem already_sent:
  assumes "st ''contactSent'' = Some v" and "v \<noteq> []"
  shows "openContactForm loc acts st =
           (st, [Fire ''info'' ''Already Sent''
                   ''You have already submitted a message this session.''])
         \<and> FireForm \<notin> set (snd (openContactForm loc acts st))
         \<and> (\<forall>u p. Fetch u p \<notin> set (snd (openContactForm loc acts st)))"
  using assms by (simp add: openContactForm_def truthy_def)

theorem already_sent_witness:
  "openContactForm site [Confirm janeForm sentOk]
      (fst (openContactForm site [Confirm janeForm sentOk] Map.empty)) =
     ([''contactSent'' \<mapsto> ''true''],
      [Fire ''info'' ''Already Sent'' ''You have already submitted a message this session.''])"
proof -
  have s: "fst (openContactForm site [Confirm janeForm sentOk] Map.empty) ''contactSent''
             = Some ''true''"
    by (simp add: janeForm_run)
  have n: "''true'' \<noteq> []" by simp
  show ?thesis
    using s n
      already_sent [where st = "fst (openContactForm site [Confirm janeForm sentOk] Map.empty)"
        and v = "''true''" and loc = site and acts = "[Confirm janeForm sentOk]"]
    by (simp add: janeForm_run)
qed

subsection \<open>What is shown when the request fails\<close>

text \<open>
  C8: the \<open>catch\<close> block tells a failure of \<open>fetch\<close> from an answer of the server by the
  message of the error alone.  A failure of \<open>fetch\<close> whose message is not
  \<open>Failed to fetch\<close> is shown with its own message, not as
  \<open>Network error. Please check your connection.\<close>; and an answer of the server whose
  message is \<open>Failed to fetch\<close> is not shown verbatim, but as that network error.
\<close>

theorem network_failure_detection:
  "preConfirm site janeForm (Rejected ''NetworkError when attempting to fetch resource.'') =
     ([Fetch ''https://gregroques.com/personaldata''
         (stringify ''Jane Doe'' ''jane@example.com'' ''Hello'' ''Hi there''),
       ShowValidationMessage ''NetworkError when attempting to fetch resource.''], None)
   \<and> preConfirm site janeForm
       (Responded False (Data \<lparr>success = False, message = Some ''Failed to fetch''\<rparr>)) =
     ([Fetch ''https://gregroques.com/personaldata''
         (stringify ''Jane Doe'' ''jane@example.com'' ''Hello'' ''Hi there''),
       ShowValidationMessage ''Network error. Please check your connection.''], None)"
  by (simp add: preConfirm_def janeForm_def site_def trim_def isSpace_def emailRegex_def
      plain_def attempt_def CONTACT_API_URL_def catchMessage_def orElse_def)

subsection \<open>The body of the request\<close>

lemma preConfirm_fetch:
  assumes "Fetch u p \<in> set (fst (preConfirm loc f r))"
  shows "\<exists>n e s m. p = stringify n e s m"
  using assms by (auto simp add: preConfirm_def Let_def split: if_splits sum.splits)

lemma fireForm_fetch:
  assumes "Fetch u p \<in> set (fst (fireForm loc acts))"
  shows "\<exists>n e s m. p = stringify n e s m"
  using assms
proof (induction loc acts rule: fireForm.induct)
  case (3 loc f r acts)
  show ?case
  proof (cases "preConfirm loc f r")
    case (Pair es x)
    show ?thesis
    proof (cases x)
      case None
      with Pair 3 preConfirm_fetch [of u p loc f r] show ?thesis
        by (auto split: prod.splits)
    next
      case (Some d)
      with Pair 3 preConfirm_fetch [of u p loc f r] show ?thesis by auto
    qed
  qed
qed simp_all

lemma openContactForm_fetch:
  assumes "Fetch u p \<in> set (snd (openContactForm loc acts st))"
  shows "\<exists>n e s m. p = stringify n e s m"
proof -
  from assms have "Fetch u p \<in> set (fst (fireForm loc acts))"
    by (auto simp add: openContactForm_def
        split: if_splits prod.splits option.splits dialogResult.splits)
  then show ?thesis by (rule fireForm_fetch)
qed

text \<open>
  C9: the body of every request that \<open>openContactForm\<close> sends has the keys \<open>name\<close>,
  \<open>email\<close>, \<open>subject\<close> and \<open>message\<close> and no others, so no \<open>phone\<close>; on such a body the
  route reads the phone as the empty string and, the sanitiser returning the empty string
  for the empty string, derives the formatted phone \<open>None Provided\<close>.
\<close>

theorem client_sends_no_phone:
  assumes "Fetch u p \<in> set (snd (openContactForm loc acts st))"
    and "xss e [] = []"
  shows "map fst p = [''name'', ''email'', ''subject'', ''message'']
       \<and> map_of p ''phone'' = None
       \<and> formattedPhone e (validatedBody e (map_of p)) = ''None Provided''"
proof -
  from openContactForm_fetch [OF assms(1)]
  obtain n a s m where p: "p = stringify n a s m" by blast
  have k: "map fst p = [''name'', ''email'', ''subject'', ''message'']"
    by (simp add: p stringify_def)
  have q: "map_of p ''phone'' = None" by (simp add: p stringify_def)
  then have "field (map_of p) ''phone'' = []" by (simp add: field_def)
  then have "field (validatedBody e (map_of p)) ''phone'' = []"
    by (simp add: validatedBody_phone trim_def)
  then have "formattedPhone e (validatedBody e (map_of p)) = ''None Provided''"
    by (simp add: formattedPhone_def orElse_def assms(2) formatPhone_def)
  with k q show ?thesis by simp
qed

theorem client_sends_no_phone_witness:
  "map fst [(''name'', ''Jane Doe''), (''email'', ''jane@example.com''), (''subject'', ''Hello''),
          (''message'', ''Hi there'')] = [''name'', ''email'', ''subject'', ''message'']
   \<and> formattedPhone (sampleEnv (\<lambda>m. None)) (validatedBody (sampleEnv (\<lambda>m. None))
        (map_of [(''name'', ''Jane Doe''), (''email'', ''jane@example.com''),
          (''subject'', ''Hello''), (''message'', ''Hi there'')])) = ''None Provided''"
proof -
  have f: "Fetch ''https://gregroques.com/personaldata''
         [(''name'', ''Jane Doe''), (''email'', ''jane@example.com''), (''subject'', ''Hello''),
          (''message'', ''Hi there'')]
        \<in> set (snd (openContactForm site [Confirm janeForm sentOk] Map.empty))"
    by (simp add: janeForm_run)
  have x: "xss (sampleEnv (\<lambda>m. None)) [] = []" by (simp add: sampleEnv_def escapeTags_def)
  show ?thesis using client_sends_no_phone [OF f x] by simp
qed

end
